theory Spec2Isabelle
  imports Complex_Main "HOL-Library.Sublist"
begin

section \<open>Strings\<close>

text \<open>
  A JavaScript string is a sequence of UTF-16 code units. The calculator's key labels and
  the constant token contain characters outside ASCII (U+03C0, U+00D7, U+207B, ...), and
  \<open>length\<close>, \<open>slice\<close> and the regular expressions of the source all count code units, so
  a string is modelled as the list of its code units. \<open>js\<close> embeds an ASCII literal.
\<close>

type_synonym jstring = "nat list"

definition js :: "string \<Rightarrow> jstring" where
  "js s = map of_char s"

text \<open>\<open>s.includes(c)\<close> for a one-character string \<open>c\<close>.\<close>

definition includes_js :: "jstring \<Rightarrow> nat \<Rightarrow> bool" where
  "includes_js s c = (c \<in> set s)"

text \<open>\<open>s.slice(0, -1)\<close>: all but the last code unit; the empty string stays empty.\<close>

definition slice_0_m1 :: "jstring \<Rightarrow> jstring" where
  "slice_0_m1 s = take (length s - 1) s"

text \<open>
  \<open>s.replace(/pat/g, rep)\<close> for a pattern that is a literal, non-empty string and a
  replacement without \<open>$\<close>: the matches are found from left to right, a match resumes the
  search after its last character, and the replacement text is not searched again.
\<close>

function replaceAll :: "jstring \<Rightarrow> jstring \<Rightarrow> jstring \<Rightarrow> jstring" where
  "replaceAll pat rep [] = []"
| "replaceAll pat rep (c # cs) =
     (if pat \<noteq> [] \<and> prefix pat (c # cs)
      then rep @ replaceAll pat rep (drop (length pat - 1) cs)
      else c # replaceAll pat rep cs)"
  by pat_completeness auto
termination
  by (relation "measure (\<lambda>(pat, rep, s). length s)") auto

definition is_digit :: "nat \<Rightarrow> bool" where
  "is_digit c = (48 \<le> c \<and> c \<le> 57)"

text \<open>
  \<open>s.replace(/e(?![0-9])/g, rep)\<close>: every \<open>e\<close> (code unit 101) whose next code unit is not
  a decimal digit, the end of the string included, is replaced.
\<close>

fun replace_e :: "jstring \<Rightarrow> jstring \<Rightarrow> jstring" where
  "replace_e rep [] = []"
| "replace_e rep (c # cs) =
     (if c = 101 \<and> \<not> (case cs of [] \<Rightarrow> False | d # _ \<Rightarrow> is_digit d)
      then rep @ replace_e rep cs
      else c # replace_e rep cs)"

section \<open>Numbers\<close>

text \<open>
  A JavaScript number is an IEEE 754 binary64 value: NaN, an infinity, or a finite value,
  which is a rational number. Finite values are kept as the rational they denote, and
  every operation that creates a number from a mathematical value rounds it with \<open>fl\<close>
  (round to nearest, ties to even, overflow to infinity, gradual underflow). The sign of
  zero is not modelled: both zeros compare equal and print as \<open>0\<close>.
\<close>

datatype number = NaN | PInf | NInf | Fin rat

text \<open>\<open>ndigits b n\<close> is the number of base-\<open>b\<close> digits of \<open>n\<close> (0 for \<open>n \<le> 0\<close>).\<close>

function ndigits :: "int \<Rightarrow> int \<Rightarrow> int" where
  "ndigits b n = (if n \<le> 0 \<or> b \<le> 1 then 0 else 1 + ndigits b (n div b))"
  by pat_completeness auto
termination
  by (relation "measure (\<lambda>(b, n). nat n)") (auto intro: int_div_less_self)

declare ndigits.simps [simp del]

text \<open>\<open>pow b k\<close> is \<open>b^k\<close> for an integer exponent \<open>k\<close> of either sign.\<close>

definition pow :: "int \<Rightarrow> int \<Rightarrow> rat" where
  "pow b k = (if 0 \<le> k then of_int (b ^ nat k) else 1 / of_int (b ^ nat (- k)))"

text \<open>\<open>ilog b q\<close> is the integer \<open>e\<close> with \<open>b^e \<le> q < b^(e+1)\<close>, for \<open>q > 0\<close> and \<open>b > 1\<close>.\<close>

definition ilog :: "int \<Rightarrow> rat \<Rightarrow> int" where
  "ilog b q = (case quotient_of q of (n, d) \<Rightarrow>
     let g = ndigits b n - ndigits b d
     in if pow b g \<le> q then g else g - 1)"

definition round_even :: "rat \<Rightarrow> int" where
  "round_even x = (let f = \<lfloor>x\<rfloor>; d = x - of_int f
     in if d < 1/2 then f else if 1/2 < d then f + 1 else if even f then f else f + 1)"

definition round_up :: "rat \<Rightarrow> int" where
  "round_up x = \<lfloor>x + 1/2\<rfloor>"

definition fl :: "rat \<Rightarrow> number" where
  "fl q = (if q = 0 then Fin 0 else
     let a = \<bar>q\<bar>;
         e = max (ilog 2 a) (- 1022);
         u = pow 2 (e - 52);
         m = round_even (a / u)
     in if 1023 < e \<or> (e = 1023 \<and> m = 9007199254740992)
        then (if q < 0 then NInf else PInf)
        else Fin ((if q < 0 then - 1 else 1) * of_int m * u))"

fun num_neg :: "number \<Rightarrow> number" where
  "num_neg NaN = NaN"
| "num_neg PInf = NInf"
| "num_neg NInf = PInf"
| "num_neg (Fin a) = Fin (- a)"

fun num_add :: "number \<Rightarrow> number \<Rightarrow> number" where
  "num_add NaN y = NaN"
| "num_add x NaN = NaN"
| "num_add PInf NInf = NaN"
| "num_add NInf PInf = NaN"
| "num_add PInf y = PInf"
| "num_add NInf y = NInf"
| "num_add (Fin a) PInf = PInf"
| "num_add (Fin a) NInf = NInf"
| "num_add (Fin a) (Fin b) = fl (a + b)"

definition num_sub :: "number \<Rightarrow> number \<Rightarrow> number" where
  "num_sub x y = num_add x (num_neg y)"

text \<open>\<open>Math.abs\<close>.\<close>

fun num_abs :: "number \<Rightarrow> number" where
  "num_abs NaN = NaN"
| "num_abs PInf = PInf"
| "num_abs NInf = PInf"
| "num_abs (Fin a) = Fin \<bar>a\<bar>"

text \<open>\<open>x < y\<close> on numbers: false as soon as one side is NaN.\<close>

fun num_lt :: "number \<Rightarrow> number \<Rightarrow> bool" where
  "num_lt NaN y = False"
| "num_lt x NaN = False"
| "num_lt PInf y = False"
| "num_lt x NInf = False"
| "num_lt NInf y = True"
| "num_lt (Fin a) PInf = True"
| "num_lt (Fin a) (Fin b) = (a < b)"

definition num_gt :: "number \<Rightarrow> number \<Rightarrow> bool" where
  "num_gt x y = num_lt y x"


definition num_ne0 :: "number \<Rightarrow> bool" where
  "num_ne0 x = (x \<noteq> Fin 0)"

text \<open>The literals \<open>1e15\<close> (a binary64 value) and \<open>1e-6\<close> (rounded).\<close>

definition lit_1e15 :: number where
  "lit_1e15 = Fin 1000000000000000"

definition lit_1e_6 :: number where
  "lit_1e_6 = fl (1 / 1000000)"

subsection \<open>Numbers to strings\<close>

function digits :: "int \<Rightarrow> jstring" where
  "digits n = (if n < 10 then [48 + nat n] else digits (n div 10) @ [48 + nat (n mod 10)])"
  by pat_completeness auto
termination
  by (relation "measure nat") auto

declare digits.simps [simp del]

definition zeros :: "nat \<Rightarrow> jstring" where
  "zeros k = replicate k 48"

text \<open>
  \<open>dec_round p q\<close>, for \<open>q > 0\<close>: the integers \<open>(n, e)\<close> with \<open>10^(p-1) \<le> n < 10^p\<close> for
  which \<open>n * 10^(e-p+1)\<close> is closest to \<open>q\<close>, the larger \<open>n\<close> on a tie, as
  \<open>Number.prototype.toExponential\<close> and \<open>toPrecision\<close> choose them.
\<close>

definition dec_round :: "nat \<Rightarrow> rat \<Rightarrow> int \<times> int" where
  "dec_round p q = (let e = ilog 10 q; n = round_up (q / pow 10 (e - int p + 1))
     in if n = 10 ^ p then (10 ^ (p - 1), e + 1) else (n, e))"

definition exponent_part :: "int \<Rightarrow> jstring" where
  "exponent_part e = js ''e'' @ (if 0 \<le> e then js ''+'' else js ''-'') @ digits \<bar>e\<bar>"

text \<open>\<open>x.toExponential(f)\<close>, for \<open>0 \<le> f \<le> 100\<close>.\<close>

definition toExponential :: "nat \<Rightarrow> number \<Rightarrow> jstring" where
  "toExponential f x = (case x of
       NaN \<Rightarrow> js ''NaN''
     | PInf \<Rightarrow> js ''Infinity''
     | NInf \<Rightarrow> js ''-Infinity''
     | Fin q \<Rightarrow>
        (let s = (if q < 0 then js ''-'' else []);
             (m, e) = (if q = 0 then (zeros (f + 1), 0)
                       else case dec_round (f + 1) \<bar>q\<bar> of (n, e) \<Rightarrow> (digits n, e));
             m' = (if f \<noteq> 0 then take 1 m @ js ''.'' @ drop 1 m else m)
         in s @ m' @ exponent_part e))"


text \<open>
  \<open>x.toString()\<close> prints the shortest decimal that reads back as \<open>x\<close>:
  integers \<open>n, k, s\<close> with \<open>10^(k-1) \<le> s < 10^k\<close> and \<open>fl (s * 10^(n-k)) = x\<close>, \<open>k\<close> as
  small as possible (the closest to \<open>x\<close> when several \<open>s\<close> qualify). Rounding is monotone,
  so for a given \<open>k\<close> only the two \<open>k\<close>-digit decimals around \<open>x\<close> need to be tried. A
  binary64 value is found with at most 17 digits; for a rational that is no binary64 value,
  which no JavaScript number is, the search gives up after 17 digits and truncates.
\<close>

definition candidate :: "rat \<Rightarrow> int \<Rightarrow> nat \<Rightarrow> (int \<times> int) option" where
  "candidate q n k = (let u = pow 10 (n - int k);
       lo = \<lfloor>q / u\<rfloor>; hi = lo + 1;
       oklo = (fl (of_int lo * u) = Fin q);
       okhi = (fl (of_int hi * u) = Fin q);
       dlo = q - of_int lo * u; dhi = of_int hi * u - q;
       pick = (if oklo \<and> okhi
               then (if dlo < dhi then Some lo else if dhi < dlo then Some hi
                     else if even lo then Some lo else Some hi)
               else if oklo then Some lo else if okhi then Some hi else None)
     in case pick of
          None \<Rightarrow> None
        | Some s \<Rightarrow> if s = 10 ^ k then Some (10 ^ (k - 1), n + 1) else Some (s, n))"

fun shortest :: "rat \<Rightarrow> int \<Rightarrow> nat \<Rightarrow> nat \<Rightarrow> int \<times> int \<times> nat" where
  "shortest q n k 0 = (\<lfloor>q / pow 10 (n - int k)\<rfloor>, n, k)"
| "shortest q n k (Suc fuel) = (case candidate q n k of
       Some (s, n') \<Rightarrow> (s, n', k)
     | None \<Rightarrow> shortest q n (Suc k) fuel)"

definition posToString :: "rat \<Rightarrow> jstring" where
  "posToString q = (case shortest q (ilog 10 q + 1) 1 17 of (s, n, k) \<Rightarrow>
     let d = digits s in
     if int k \<le> n \<and> n \<le> 21 then d @ zeros (nat (n - int k))
     else if 0 < n \<and> n \<le> 21 then take (nat n) d @ js ''.'' @ drop (nat n) d
     else if - 6 < n \<and> n \<le> 0 then js ''0.'' @ zeros (nat (- n)) @ d
     else if k = 1 then d @ exponent_part (n - 1)
     else take 1 d @ js ''.'' @ drop 1 d @ exponent_part (n - 1))"

definition numToString :: "number \<Rightarrow> jstring" where
  "numToString x = (case x of
       NaN \<Rightarrow> js ''NaN''
     | PInf \<Rightarrow> js ''Infinity''
     | NInf \<Rightarrow> js ''-Infinity''
     | Fin q \<Rightarrow> if q = 0 then js ''0''
                else if q < 0 then js ''-'' @ posToString (- q)
                else posToString q)"

subsection \<open>Strings to numbers\<close>

text \<open>White space and line terminators, which \<open>parseFloat\<close> skips at the start.\<close>

definition is_space :: "nat \<Rightarrow> bool" where
  "is_space c = (c \<in> {9, 10, 11, 12, 13, 32, 160, 5760, 8232, 8233, 8239, 8287, 12288, 65279}
                 \<or> (8192 \<le> c \<and> c \<le> 8202))"

definition digits_val :: "jstring \<Rightarrow> int" where
  "digits_val ds = foldl (\<lambda>a c. 10 * a + (int c - 48)) 0 ds"

text \<open>
  The value of the exponent part at the start of \<open>t\<close>: \<open>e\<close> or \<open>E\<close>, an optional sign, at
  least one digit. Anything else is not part of the literal and counts as exponent 0.
\<close>

definition exponent_of :: "jstring \<Rightarrow> int" where
  "exponent_of t = (case t of
       [] \<Rightarrow> 0
     | c # r \<Rightarrow>
         if c = 101 \<or> c = 69
         then (let neg = (case r of [] \<Rightarrow> False | d # _ \<Rightarrow> d = 45);
                   r' = (case r of [] \<Rightarrow> [] | d # r'' \<Rightarrow> if d = 45 \<or> d = 43 then r'' else r);
                   ds = takeWhile is_digit r'
               in if ds = [] then 0 else if neg then - digits_val ds else digits_val ds)
         else 0)"

text \<open>
  \<open>parseFloat(s)\<close>: the longest prefix of the trimmed string that is a decimal literal
  (\<open>Infinity\<close>, digits with an optional fraction and exponent, each with an optional sign)
  is converted; NaN when there is no such prefix.
\<close>

definition parseFloat :: "jstring \<Rightarrow> number" where
  "parseFloat s = (let t = dropWhile is_space s;
       neg = (case t of [] \<Rightarrow> False | c # _ \<Rightarrow> c = 45);
       t1 = (case t of [] \<Rightarrow> [] | c # r \<Rightarrow> if c = 45 \<or> c = 43 then r else t)
     in if prefix (js ''Infinity'') t1 then (if neg then NInf else PInf)
        else
          let ip = takeWhile is_digit t1;
              t2 = dropWhile is_digit t1;
              dot = (case t2 of [] \<Rightarrow> False | c # _ \<Rightarrow> c = 46);
              fp = (if dot then takeWhile is_digit (tl t2) else []);
              t3 = (if dot then dropWhile is_digit (tl t2) else t2)
          in if ip = [] \<and> fp = [] then NaN
             else fl ((if neg then - 1 else 1) * of_int (digits_val (ip @ fp))
                      * pow 10 (exponent_of t3 - int (length fp))))"

section \<open>The calculator state\<close>

datatype AngleMode = DEG | RAD

record CalculatorState =
  display :: jstring
  expression :: jstring
  memory :: number
  angleMode :: AngleMode
  previousAnswer :: number
  waitingForOperand :: bool
  hasError :: bool

definition initialState :: CalculatorState where
  "initialState = \<lparr>display = js ''0'', expression = [], memory = Fin 0, angleMode = DEG,
     previousAnswer = Fin 0, waitingForOperand = False, hasError = False\<rparr>"

text \<open>
  The constants \<open>pi\<close> and \<open>e\<close> that the source imports from mathjs are the binary64 values
  \<open>Math.PI\<close> and \<open>Math.E\<close>.
\<close>

definition pi_js :: number where
  "pi_js = Fin (884279719003555 / 281474976710656)"

definition e_js :: number where
  "e_js = Fin (6121026514868073 / 2251799813685248)"

text \<open>
  Code units of the characters outside ASCII in the string literals of the source: U+03C0
  (pi), U+00D7 (times), U+00F7 (division), U+2212 (minus), U+207B U+00B9 (superscript minus
  one), U+00B2 and U+00B3 (superscript two and three), U+02E3 (superscript x), U+221A (root).
\<close>

definition PI_SIGN :: jstring where "PI_SIGN = [960]"
definition TIMES_SIGN :: jstring where "TIMES_SIGN = [215]"
definition DIVIDE_SIGN :: jstring where "DIVIDE_SIGN = [247]"
definition MINUS_SIGN :: jstring where "MINUS_SIGN = [8722]"
definition SUP_MINUS_ONE :: jstring where "SUP_MINUS_ONE = [8315, 185]"
definition SUP_TWO :: jstring where "SUP_TWO = [178]"
definition SUP_THREE :: jstring where "SUP_THREE = [179]"
definition SUP_X :: jstring where "SUP_X = [739]"
definition ROOT_SIGN :: jstring where "ROOT_SIGN = [8730]"

section \<open>Expression assembly\<close>

definition insertNumber :: "jstring \<Rightarrow> CalculatorState \<Rightarrow> CalculatorState" where
  "insertNumber num prev =
     (if waitingForOperand prev \<or> display prev = js ''0'' \<or> hasError prev
      then prev\<lparr>display := num, expression := expression prev @ num,
                waitingForOperand := False, hasError := False\<rparr>
      else prev\<lparr>display := display prev @ num, expression := expression prev @ num\<rparr>)"

definition insertOperator :: "jstring \<Rightarrow> CalculatorState \<Rightarrow> CalculatorState" where
  "insertOperator operator prev =
     (let newExpression =
        (if operator = js ''('' \<or> operator = js '')'' then expression prev @ operator
         else
           let mathOperator =
             (if operator = TIMES_SIGN then js ''*''
              else if operator = DIVIDE_SIGN then js ''/''
              else if operator = MINUS_SIGN then js ''-''
              else operator)
           in expression prev @ mathOperator)
      in prev\<lparr>expression := newExpression,
               waitingForOperand := (operator \<noteq> js ''('' \<and> operator \<noteq> js '')''),
               hasError := False\<rparr>)"

definition insertDecimal :: "CalculatorState \<Rightarrow> CalculatorState" where
  "insertDecimal prev =
     (if waitingForOperand prev \<or> hasError prev
      then prev\<lparr>display := js ''0.'', expression := expression prev @ js ''0.'',
                waitingForOperand := False, hasError := False\<rparr>
      else if \<not> includes_js (display prev) 46
      then prev\<lparr>display := display prev @ js ''.'', expression := expression prev @ js ''.''\<rparr>
      else prev)"

definition insertConstant :: "jstring \<Rightarrow> CalculatorState \<Rightarrow> CalculatorState" where
  "insertConstant constant prev =
     (let v = (if constant = PI_SIGN then numToString pi_js else numToString e_js)
      in prev\<lparr>display := v, expression := expression prev @ constant,
               waitingForOperand := False, hasError := False\<rparr>)"

definition insertAnswer :: "CalculatorState \<Rightarrow> CalculatorState" where
  "insertAnswer prev =
     prev\<lparr>display := numToString (previousAnswer prev),
          expression := expression prev @ numToString (previousAnswer prev),
          waitingForOperand := False, hasError := False\<rparr>"

text \<open>
  The \<open>switch\<close> of \<open>handleFunction\<close>: the text appended for a key label, \<open>None\<close> for the
  \<open>default\<close> branch.
\<close>

definition fragment :: "jstring \<Rightarrow> jstring option" where
  "fragment func =
     (if func = js ''sin'' \<or> func = js ''cos'' \<or> func = js ''tan'' then Some (func @ js ''('')
      else if func = js ''sin'' @ SUP_MINUS_ONE then Some (js ''asin('')
      else if func = js ''cos'' @ SUP_MINUS_ONE then Some (js ''acos('')
      else if func = js ''tan'' @ SUP_MINUS_ONE then Some (js ''atan('')
      else if func = js ''ln'' then Some (js ''log('')
      else if func = js ''log'' then Some (js ''log10('')
      else if func = ROOT_SIGN @ js ''x'' then Some (js ''sqrt('')
      else if func = SUP_THREE @ ROOT_SIGN @ js ''x'' then Some (js ''cbrt('')
      else if func = js ''x'' @ SUP_TWO then Some (js ''^2'')
      else if func = js ''x'' @ SUP_THREE then Some (js ''^3'')
      else if func = js ''x^y'' then Some (js ''^'')
      else if func = js ''e'' @ SUP_X then Some (js ''exp('')
      else if func = js ''10'' @ SUP_X then Some (js ''10^('')
      else if func = js ''1/x'' then Some (js ''1/('')
      else if func = js ''n!'' then Some (js ''!'')
      else if func = js ''%'' then Some (js ''/100'')
      else if func = js ''y'' @ ROOT_SIGN @ js ''x'' then Some (js ''nthRoot('')
      else None)"

definition handleFunction :: "jstring \<Rightarrow> CalculatorState \<Rightarrow> CalculatorState" where
  "handleFunction func prev =
     (case fragment func of
        None \<Rightarrow> prev
      | Some frag \<Rightarrow>
          prev\<lparr>expression := expression prev @ frag,
               waitingForOperand := includes_js func 40,
               hasError := False\<rparr>)"

definition toggleAngleMode :: "CalculatorState \<Rightarrow> CalculatorState" where
  "toggleAngleMode prev = prev\<lparr>angleMode := (if angleMode prev = DEG then RAD else DEG)\<rparr>"

definition toggleSign :: "CalculatorState \<Rightarrow> CalculatorState" where
  "toggleSign prev =
     (if display prev = js ''0'' \<or> hasError prev then prev
      else
        let newDisplay = (if prefix (js ''-'') (display prev) then drop 1 (display prev)
                          else js ''-'' @ display prev)
        in prev\<lparr>display := newDisplay\<rparr>)"

definition backspace :: "CalculatorState \<Rightarrow> CalculatorState" where
  "backspace prev =
     (if hasError prev \<or> display prev = js ''0''
      then prev\<lparr>display := js ''0'', expression := [], hasError := False\<rparr>
      else
        let newExpression = slice_0_m1 (expression prev);
            newDisplay = (if 1 < length (display prev) then slice_0_m1 (display prev)
                          else js ''0'')
        in prev\<lparr>display := newDisplay, expression := newExpression\<rparr>)"

definition clearAll :: "CalculatorState \<Rightarrow> CalculatorState" where
  "clearAll prev = initialState"

text \<open>\<open>generateRandom\<close>, given the value that \<open>Math.random()\<close> returned.\<close>

definition generateRandom :: "number \<Rightarrow> CalculatorState \<Rightarrow> CalculatorState" where
  "generateRandom randomNum prev =
     prev\<lparr>display := numToString randomNum,
          expression := expression prev @ numToString randomNum,
          waitingForOperand := False, hasError := False\<rparr>"

section \<open>The memory register\<close>

text \<open>\<open>prev.display || '0'\<close>: the empty string is the only falsy string.\<close>

definition display_or_0 :: "CalculatorState \<Rightarrow> jstring" where
  "display_or_0 prev = (if display prev = [] then js ''0'' else display prev)"

definition memoryAdd :: "CalculatorState \<Rightarrow> CalculatorState" where
  "memoryAdd prev = prev\<lparr>memory := num_add (memory prev) (parseFloat (display_or_0 prev))\<rparr>"

definition memorySubtract :: "CalculatorState \<Rightarrow> CalculatorState" where
  "memorySubtract prev = prev\<lparr>memory := num_sub (memory prev) (parseFloat (display_or_0 prev))\<rparr>"

definition memoryRecall :: "CalculatorState \<Rightarrow> CalculatorState" where
  "memoryRecall prev =
     prev\<lparr>display := numToString (memory prev),
          expression := expression prev @ numToString (memory prev),
          waitingForOperand := False, hasError := False\<rparr>"

definition memoryClear :: "CalculatorState \<Rightarrow> CalculatorState" where
  "memoryClear prev = prev\<lparr>memory := Fin 0\<rparr>"

section \<open>Evaluation\<close>

text \<open>
  The constant substitution of \<open>calculate\<close> (the two \<open>replace\<close> calls under
  "Replace constants").
\<close>

definition replaceConstants :: "jstring \<Rightarrow> jstring" where
  "replaceConstants expr =
     replace_e (numToString e_js) (replaceAll PI_SIGN (numToString pi_js) expr)"

text \<open>The six \<open>replace\<close> calls of the \<open>DEG\<close> branch, in the order of the source.\<close>

definition degRewrite :: "jstring \<Rightarrow> jstring" where
  "degRewrite expr =
     (let expr = replaceAll (js ''sin('') (js ''sin((pi/180)*'') expr;
          expr = replaceAll (js ''cos('') (js ''cos((pi/180)*'') expr;
          expr = replaceAll (js ''tan('') (js ''tan((pi/180)*'') expr;
          expr = replaceAll (js ''asin('') (js ''(180/pi)*asin('') expr;
          expr = replaceAll (js ''acos('') (js ''(180/pi)*acos('') expr;
          expr = replaceAll (js ''atan('') (js ''(180/pi)*atan('') expr
      in expr)"

text \<open>The string that \<open>calculate\<close> hands to the evaluator.\<close>

definition rewritten :: "AngleMode \<Rightarrow> jstring \<Rightarrow> jstring" where
  "rewritten mode expr =
     (let expr = replaceConstants expr
      in if mode = DEG then degRewrite expr else expr)"

text \<open>
  mathjs's \<open>evaluate\<close> is not part of the repository: it is a parameter of the model. It
  throws (\<open>None\<close>) or returns a value, which is a number or something else (a matrix, a
  complex number, a string, ...). Of a value that is not a number the source only calls
  \<open>toString()\<close>, which throws on \<open>undefined\<close> and \<open>null\<close> (\<open>NonNumber None\<close>) and returns a
  string otherwise.
\<close>

datatype result = Number number | NonNumber "jstring option"

type_synonym evaluator = "jstring \<Rightarrow> result option"

text \<open>The test that selects exponential notation, the same in \<open>calculate\<close> and \<open>formatDisplay\<close>.\<close>

definition veryLargeOrSmall :: "number \<Rightarrow> bool" where
  "veryLargeOrSmall x =
     (num_gt (num_abs x) lit_1e15 \<or> (num_lt (num_abs x) lit_1e_6 \<and> num_ne0 x))"

text \<open>The \<open>catch\<close> branch of \<open>calculate\<close>.\<close>

definition failed :: "CalculatorState \<Rightarrow> CalculatorState" where
  "failed prev = prev\<lparr>display := js ''Error'', expression := [], hasError := True\<rparr>"

definition calculate :: "evaluator \<Rightarrow> CalculatorState \<Rightarrow> CalculatorState" where
  "calculate evaluate prev =
     (if expression prev = [] then prev
      else
        case evaluate (rewritten (angleMode prev) (expression prev)) of
          None \<Rightarrow> failed prev
        | Some (Number r) \<Rightarrow>
            prev\<lparr>display := (if veryLargeOrSmall r then toExponential 6 r else numToString r),
                 expression := [], previousAnswer := r,
                 waitingForOperand := True, hasError := False\<rparr>
        | Some (NonNumber None) \<Rightarrow> failed prev
        | Some (NonNumber (Some str)) \<Rightarrow>
            prev\<lparr>display := str, expression := [], previousAnswer := Fin 0,
                 waitingForOperand := True, hasError := False\<rparr>)"

section \<open>Rendering the display\<close>


section \<open>Input events\<close>

text \<open>
  One constructor for each handler of the source that changes the state. \<open>Random\<close> carries
  the value drawn by \<open>Math.random()\<close>.
\<close>

datatype event =
    InsertDigit jstring
  | InsertOperator jstring
  | InsertDecimal
  | InsertConstant jstring
  | InsertPreviousAnswer
  | ApplyFunction jstring
  | ToggleSign
  | Backspace
  | ClearAll
  | ToggleAngleMode
  | GenerateRandom number
  | MemoryAdd
  | MemorySubtract
  | MemoryRecall
  | MemoryClear
  | Evaluate

fun step :: "evaluator \<Rightarrow> CalculatorState \<Rightarrow> event \<Rightarrow> CalculatorState" where
  "step ev s (InsertDigit d) = insertNumber d s"
| "step ev s (InsertOperator op) = insertOperator op s"
| "step ev s InsertDecimal = insertDecimal s"
| "step ev s (InsertConstant c) = insertConstant c s"
| "step ev s InsertPreviousAnswer = insertAnswer s"
| "step ev s (ApplyFunction f) = handleFunction f s"
| "step ev s ToggleSign = toggleSign s"
| "step ev s Backspace = backspace s"
| "step ev s ClearAll = clearAll s"
| "step ev s ToggleAngleMode = toggleAngleMode s"
| "step ev s (GenerateRandom r) = generateRandom r s"
| "step ev s MemoryAdd = memoryAdd s"
| "step ev s MemorySubtract = memorySubtract s"
| "step ev s MemoryRecall = memoryRecall s"
| "step ev s MemoryClear = memoryClear s"
| "step ev s Evaluate = calculate ev s"

text \<open>The state after a sequence of events, the first event of the list first.\<close>

definition run :: "evaluator \<Rightarrow> CalculatorState \<Rightarrow> event list \<Rightarrow> CalculatorState" where
  "run ev s es = foldl (step ev) s es"

section \<open>Notions used in the statements\<close>

text \<open>
  A small evaluator to run the model on concrete inputs: it understands unsigned integer
  literals and throws at every other expression (as mathjs does at \<open>+\<close>).
\<close>

definition literalEvaluator :: evaluator where
  "literalEvaluator expr =
     (if expr \<noteq> [] \<and> list_all is_digit expr
      then Some (Number (fl (of_int (digits_val expr)))) else None)"


text \<open>The state after the keys \<open>+\<close> and \<open>=\<close>, when the evaluator throws at \<open>+\<close>.\<close>

definition errorState :: CalculatorState where
  "errorState = \<lparr>display = js ''Error'', expression = [], memory = Fin 0, angleMode = DEG,
     previousAnswer = Fin 0, waitingForOperand = True, hasError = True\<rparr>"

definition errorInv :: "CalculatorState \<Rightarrow> bool" where
  "errorInv s = (hasError s \<longrightarrow> expression s = [])"

text \<open>The events whose handler writes \<open>hasError: false\<close> (or resets the whole state).\<close>

fun clearsError :: "event \<Rightarrow> bool" where
  "clearsError (InsertDigit d) = True"
| "clearsError (InsertOperator op) = True"
| "clearsError InsertDecimal = True"
| "clearsError (InsertConstant c) = True"
| "clearsError InsertPreviousAnswer = True"
| "clearsError (ApplyFunction f) = (fragment f \<noteq> None)"
| "clearsError ToggleSign = False"
| "clearsError Backspace = True"
| "clearsError ClearAll = True"
| "clearsError ToggleAngleMode = False"
| "clearsError (GenerateRandom r) = True"
| "clearsError MemoryAdd = False"
| "clearsError MemorySubtract = False"
| "clearsError MemoryRecall = True"
| "clearsError MemoryClear = False"
| "clearsError Evaluate = False"

text \<open>Typing the digits \<open>ds\<close>, one key each.\<close>

definition insertDigits :: "jstring \<Rightarrow> CalculatorState \<Rightarrow> CalculatorState" where
  "insertDigits ds s = foldl (\<lambda>s d. insertNumber [d] s) s ds"

text \<open>A digit string without its leading zeros, \<open>0\<close> when nothing is left.\<close>

definition stripZeros :: "jstring \<Rightarrow> jstring" where
  "stripZeros ds =
     (if dropWhile (\<lambda>c. c = 48) ds = [] then js ''0'' else dropWhile (\<lambda>c. c = 48) ds)"


section \<open>The error flag and the expression\<close>

lemma errorInv_step: "errorInv s \<Longrightarrow> errorInv (step ev s e)"
  by (cases e)
     (auto simp: errorInv_def insertNumber_def insertOperator_def insertDecimal_def
        insertConstant_def insertAnswer_def handleFunction_def toggleSign_def backspace_def
        clearAll_def initialState_def toggleAngleMode_def generateRandom_def memoryAdd_def
        memorySubtract_def memoryRecall_def memoryClear_def calculate_def failed_def Let_def
        split: option.splits result.splits if_splits)

lemma errorInv_run: "errorInv s \<Longrightarrow> errorInv (run ev s es)"
  unfolding run_def by (induction es arbitrary: s) (auto simp: errorInv_step)

lemma errorInv_initial: "errorInv initialState"
  by (simp add: errorInv_def initialState_def)

lemma rewritten_plus: "rewritten m (js ''+'') = js ''+''"
  by (simp add: rewritten_def replaceConstants_def degRewrite_def js_def PI_SIGN_def Let_def)

lemma insertOperator_plus:
  "insertOperator (js ''+'') s =
     s\<lparr>expression := expression s @ js ''+'', waitingForOperand := True, hasError := False\<rparr>"
  by (simp add: insertOperator_def js_def TIMES_SIGN_def DIVIDE_SIGN_def MINUS_SIGN_def)

lemma errorState_reached:
  assumes "ev (js ''+'') = None"
  shows "run ev initialState [InsertOperator (js ''+''), Evaluate] = errorState"
proof -
  have "insertOperator (js ''+'') initialState
        = initialState\<lparr>expression := js ''+'', waitingForOperand := True\<rparr>"
    by (simp add: insertOperator_plus initialState_def)
  moreover have "calculate ev (initialState\<lparr>expression := js ''+'', waitingForOperand := True\<rparr>)
        = errorState"
    using assms
    by (simp add: calculate_def initialState_def rewritten_plus failed_def errorState_def)
       (simp add: js_def)
  ultimately show ?thesis by (simp add: run_def)
qed

lemma literalEvaluator_plus: "literalEvaluator (js ''+'') = None"
  by (simp add: literalEvaluator_def js_def is_digit_def)

text \<open>
  C6. Whenever \<open>hasError\<close> is true the expression is empty: this holds in \<open>initialState\<close>,
  every operation preserves it, for any evaluator and any payload of the event, and so it
  holds after every sequence of events.
\<close>

theorem hasError_implies_empty_expression:
  "errorInv initialState
   \<and> (\<forall>ev s e. errorInv s \<longrightarrow> errorInv (step ev s e))
   \<and> (\<forall>ev es. errorInv (run ev initialState es))"
  using errorInv_initial errorInv_step errorInv_run by blast

theorem hasError_implies_empty_expression_witness:
  "hasError (run literalEvaluator initialState [InsertOperator (js ''+''), Evaluate])
   \<and> expression (run literalEvaluator initialState [InsertOperator (js ''+''), Evaluate]) = []
   \<and> errorInv (step literalEvaluator errorState MemoryAdd)"
proof -
  have r: "run literalEvaluator initialState [InsertOperator (js ''+''), Evaluate] = errorState"
    using literalEvaluator_plus by (rule errorState_reached)
  have "errorInv (run literalEvaluator initialState [InsertOperator (js ''+''), Evaluate])"
    using hasError_implies_empty_expression by blast
  moreover have "errorInv errorState \<longrightarrow> errorInv (step literalEvaluator errorState MemoryAdd)"
    using hasError_implies_empty_expression by blast
  ultimately show ?thesis
    by (simp add: r errorInv_def) (simp add: errorState_def)
qed

section \<open>Leaving the error state\<close>

lemma table_key_without_parenthesis: "fragment func = Some frag \<Longrightarrow> \<not> includes_js func 40"
  by (auto simp: fragment_def includes_js_def js_def SUP_MINUS_ONE_def SUP_TWO_def SUP_THREE_def
        SUP_X_def ROOT_SIGN_def split: if_splits)

lemma error_state_clearing_events:
  assumes h: "hasError s" and x: "expression s = []"
  shows "step ev s (InsertDigit d)
           = s\<lparr>display := d, expression := d, waitingForOperand := False, hasError := False\<rparr>"
    and "step ev s (InsertOperator op)
           = s\<lparr>expression := (if op = TIMES_SIGN then js ''*'' else if op = DIVIDE_SIGN then js ''/''
                                else if op = MINUS_SIGN then js ''-'' else op),
                waitingForOperand := (op \<noteq> js ''('' \<and> op \<noteq> js '')''), hasError := False\<rparr>"
    and "step ev s InsertDecimal
           = s\<lparr>display := js ''0.'', expression := js ''0.'', waitingForOperand := False,
                hasError := False\<rparr>"
    and "step ev s (InsertConstant c)
           = s\<lparr>display := (if c = PI_SIGN then numToString pi_js else numToString e_js),
                expression := c, waitingForOperand := False, hasError := False\<rparr>"
    and "step ev s InsertPreviousAnswer
           = s\<lparr>display := numToString (previousAnswer s),
                expression := numToString (previousAnswer s),
                waitingForOperand := False, hasError := False\<rparr>"
    and "fragment f = Some frag \<Longrightarrow> step ev s (ApplyFunction f)
           = s\<lparr>expression := frag, waitingForOperand := False, hasError := False\<rparr>"
    and "step ev s Backspace = s\<lparr>display := js ''0'', expression := [], hasError := False\<rparr>"
    and "step ev s ClearAll = initialState"
    and "step ev s (GenerateRandom r)
           = s\<lparr>display := numToString r, expression := numToString r,
                waitingForOperand := False, hasError := False\<rparr>"
    and "step ev s MemoryRecall
           = s\<lparr>display := numToString (memory s), expression := numToString (memory s),
                waitingForOperand := False, hasError := False\<rparr>"
  using h x table_key_without_parenthesis[of f frag]
  by (auto simp: insertNumber_def insertOperator_def insertDecimal_def insertConstant_def
        insertAnswer_def handleFunction_def backspace_def clearAll_def generateRandom_def
        memoryRecall_def Let_def js_def TIMES_SIGN_def DIVIDE_SIGN_def MINUS_SIGN_def)

lemma error_state_other_events:
  assumes h: "hasError s" and x: "expression s = []"
  shows "step ev s ToggleSign = s"
    and "step ev s ToggleAngleMode = s\<lparr>angleMode := (if angleMode s = DEG then RAD else DEG)\<rparr>"
    and "step ev s MemoryAdd = s\<lparr>memory := num_add (memory s) (parseFloat (display_or_0 s))\<rparr>"
    and "step ev s MemorySubtract = s\<lparr>memory := num_sub (memory s) (parseFloat (display_or_0 s))\<rparr>"
    and "step ev s MemoryClear = s\<lparr>memory := Fin 0\<rparr>"
    and "step ev s Evaluate = s"
    and "fragment f = None \<Longrightarrow> step ev s (ApplyFunction f) = s"
  using h x
  by (auto simp: toggleSign_def toggleAngleMode_def memoryAdd_def memorySubtract_def
        memoryClear_def calculate_def handleFunction_def)

lemma error_state_fresh_start:
  assumes h: "hasError s" and c: "clearsError e" and b: "e \<noteq> Backspace"
  shows "step ev s e = step ev (s\<lparr>waitingForOperand := True, hasError := False\<rparr>) e"
  using h c b
  by (cases e)
     (auto simp: insertNumber_def insertOperator_def insertDecimal_def insertConstant_def
        insertAnswer_def handleFunction_def clearAll_def generateRandom_def
        memoryRecall_def Let_def split: option.splits)

text \<open>
  C7, as the code has it. In a state with \<open>hasError\<close> true and the expression empty (every
  reachable error state, by C6) the next event yields \<open>hasError\<close> false exactly when its
  handler writes the flag: digits, operators, the decimal point, constants, the previous
  answer, a function key of the table, backspace, clear, a random number and memory
  recall. Each of these, backspace apart, first clears the error and then has its own
  normal effect: the result is the one of the same event in the state with \<open>hasError\<close>
  cleared and a new operand awaited, so the new token starts the display and the
  expression afresh. Backspace resets the display to \<open>0\<close>, clear returns \<open>initialState\<close>. The
  sign toggle and evaluate do nothing, an unknown function key does nothing, the angle-mode
  toggle flips the mode, memory add, subtract and clear update the memory: these have their
  effect on their own field and leave \<open>hasError\<close> true, the display and the empty expression
  unchanged.
\<close>

theorem error_cleared_by_writing_handlers:
  "hasError s \<Longrightarrow> expression s = [] \<Longrightarrow>
     hasError (step ev s e) = (\<not> clearsError e)
     \<and> (\<not> clearsError e \<longrightarrow>
          display (step ev s e) = display s \<and> expression (step ev s e) = [])
     \<and> (clearsError e \<and> e \<noteq> Backspace \<longrightarrow>
          step ev s e = step ev (s\<lparr>waitingForOperand := True, hasError := False\<rparr>) e)
     \<and> step ev s (InsertDigit d)
         = s\<lparr>display := d, expression := d, waitingForOperand := False, hasError := False\<rparr>
     \<and> step ev s (InsertOperator op)
         = s\<lparr>expression := (if op = TIMES_SIGN then js ''*'' else if op = DIVIDE_SIGN then js ''/''
                              else if op = MINUS_SIGN then js ''-'' else op),
              waitingForOperand := (op \<noteq> js ''('' \<and> op \<noteq> js '')''), hasError := False\<rparr>
     \<and> step ev s InsertDecimal
         = s\<lparr>display := js ''0.'', expression := js ''0.'', waitingForOperand := False,
              hasError := False\<rparr>
     \<and> step ev s (InsertConstant c)
         = s\<lparr>display := (if c = PI_SIGN then numToString pi_js else numToString e_js),
              expression := c, waitingForOperand := False, hasError := False\<rparr>
     \<and> step ev s InsertPreviousAnswer
         = s\<lparr>display := numToString (previousAnswer s),
              expression := numToString (previousAnswer s),
              waitingForOperand := False, hasError := False\<rparr>
     \<and> (fragment f = Some frag \<longrightarrow>
          step ev s (ApplyFunction f)
            = s\<lparr>expression := frag, waitingForOperand := False, hasError := False\<rparr>)
     \<and> step ev s Backspace = s\<lparr>display := js ''0'', expression := [], hasError := False\<rparr>
     \<and> step ev s ClearAll = initialState
     \<and> step ev s (GenerateRandom r)
         = s\<lparr>display := numToString r, expression := numToString r,
              waitingForOperand := False, hasError := False\<rparr>
     \<and> step ev s MemoryRecall
         = s\<lparr>display := numToString (memory s), expression := numToString (memory s),
              waitingForOperand := False, hasError := False\<rparr>
     \<and> step ev s ToggleSign = s
     \<and> step ev s ToggleAngleMode = s\<lparr>angleMode := (if angleMode s = DEG then RAD else DEG)\<rparr>
     \<and> step ev s MemoryAdd = s\<lparr>memory := num_add (memory s) (parseFloat (display_or_0 s))\<rparr>
     \<and> step ev s MemorySubtract
         = s\<lparr>memory := num_sub (memory s) (parseFloat (display_or_0 s))\<rparr>
     \<and> step ev s MemoryClear = s\<lparr>memory := Fin 0\<rparr>
     \<and> step ev s Evaluate = s
     \<and> (fragment g = None \<longrightarrow> step ev s (ApplyFunction g) = s)"
proof -
  assume h: "hasError s" and x: "expression s = []"
  have a: "hasError (step ev s e) = (\<not> clearsError e)
     \<and> (\<not> clearsError e \<longrightarrow>
          display (step ev s e) = display s \<and> expression (step ev s e) = [])"
    using h x
    by (cases e)
       (auto simp: insertNumber_def insertOperator_def insertDecimal_def
          insertConstant_def insertAnswer_def handleFunction_def toggleSign_def backspace_def
          clearAll_def initialState_def toggleAngleMode_def generateRandom_def memoryAdd_def
          memorySubtract_def memoryRecall_def memoryClear_def calculate_def Let_def
          split: option.splits)
  have b: "clearsError e \<and> e \<noteq> Backspace \<longrightarrow>
          step ev s e = step ev (s\<lparr>waitingForOperand := True, hasError := False\<rparr>) e"
    using error_state_fresh_start[OF h, of e ev] by blast
  have c: "fragment f = Some frag \<longrightarrow>
          step ev s (ApplyFunction f)
            = s\<lparr>expression := frag, waitingForOperand := False, hasError := False\<rparr>"
    using error_state_clearing_events(6)[OF h x, of f frag ev] by blast
  have d: "fragment g = None \<longrightarrow> step ev s (ApplyFunction g) = s"
    using error_state_other_events(7)[OF h x, of g ev] by blast
  show ?thesis
    using a b c d
      error_state_clearing_events(1)[OF h x, of ev d]
      error_state_clearing_events(2)[OF h x, of ev op]
      error_state_clearing_events(3)[OF h x, of ev]
      error_state_clearing_events(4)[OF h x, of ev c]
      error_state_clearing_events(5)[OF h x, of ev]
      error_state_clearing_events(7)[OF h x, of ev]
      error_state_clearing_events(8)[OF h x, of ev]
      error_state_clearing_events(9)[OF h x, of ev r]
      error_state_clearing_events(10)[OF h x, of ev]
      error_state_other_events(1)[OF h x, of ev]
      error_state_other_events(2)[OF h x, of ev]
      error_state_other_events(3)[OF h x, of ev]
      error_state_other_events(4)[OF h x, of ev]
      error_state_other_events(5)[OF h x, of ev]
      error_state_other_events(6)[OF h x, of ev]
    by blast
qed

theorem error_cleared_by_writing_handlers_witness:
  "hasError errorState \<and> expression errorState = []
   \<and> clearsError (InsertDigit (js ''7'')) \<and> InsertDigit (js ''7'') \<noteq> Backspace
   \<and> \<not> clearsError MemoryClear
   \<and> fragment (js ''sin'') = Some (js ''sin('') \<and> fragment (js ''abs'') = None
   \<and> \<not> hasError (step literalEvaluator errorState (InsertDigit (js ''7'')))
   \<and> step literalEvaluator errorState (InsertDigit (js ''7''))
       = errorState\<lparr>display := js ''7'', expression := js ''7'', waitingForOperand := False,
                    hasError := False\<rparr>
   \<and> step literalEvaluator errorState (InsertDigit (js ''7''))
       = step literalEvaluator (errorState\<lparr>waitingForOperand := True, hasError := False\<rparr>)
           (InsertDigit (js ''7''))
   \<and> step literalEvaluator errorState (ApplyFunction (js ''sin''))
       = errorState\<lparr>expression := js ''sin('', waitingForOperand := False, hasError := False\<rparr>
   \<and> step literalEvaluator errorState (ApplyFunction (js ''abs'')) = errorState
   \<and> hasError (step literalEvaluator errorState MemoryClear)
   \<and> display (step literalEvaluator errorState MemoryClear) = js ''Error''"
proof -
  have h: "hasError errorState" "expression errorState = []"
    by (simp_all add: errorState_def)
  have f: "fragment (js ''sin'') = Some (js ''sin('')" "fragment (js ''abs'') = None"
    by (simp_all add: fragment_def js_def SUP_MINUS_ONE_def SUP_TWO_def SUP_THREE_def SUP_X_def
          ROOT_SIGN_def)
  have c: "clearsError (InsertDigit (js ''7''))" "InsertDigit (js ''7'') \<noteq> Backspace"
          "\<not> clearsError MemoryClear"
    by simp_all
  have d: "display errorState = js ''Error''" by (simp add: errorState_def)
  note a = error_cleared_by_writing_handlers
      [of errorState literalEvaluator "InsertDigit (js ''7'')" "js ''7''" "js ''+''" PI_SIGN
          "js ''sin''" "js ''sin(''" "Fin 0" "js ''abs''", OF h]
  note b = error_cleared_by_writing_handlers
      [of errorState literalEvaluator MemoryClear "js ''7''" "js ''+''" PI_SIGN
          "js ''sin''" "js ''sin(''" "Fin 0" "js ''abs''", OF h]
  have 1: "\<not> hasError (step literalEvaluator errorState (InsertDigit (js ''7'')))"
    using a c by blast
  have 2: "step literalEvaluator errorState (InsertDigit (js ''7''))
       = errorState\<lparr>display := js ''7'', expression := js ''7'', waitingForOperand := False,
                    hasError := False\<rparr>"
    using a by blast
  have 3: "step literalEvaluator errorState (InsertDigit (js ''7''))
       = step literalEvaluator (errorState\<lparr>waitingForOperand := True, hasError := False\<rparr>)
           (InsertDigit (js ''7''))"
    using a c by blast
  have 4: "step literalEvaluator errorState (ApplyFunction (js ''sin''))
       = errorState\<lparr>expression := js ''sin('', waitingForOperand := False, hasError := False\<rparr>"
    using a f by blast
  have 5: "step literalEvaluator errorState (ApplyFunction (js ''abs'')) = errorState"
    using a f by blast
  have 6: "hasError (step literalEvaluator errorState MemoryClear)
           \<and> display (step literalEvaluator errorState MemoryClear) = display errorState"
    using b c by blast
  show ?thesis using h f c 1 2 3 4 5 6 d by simp
qed

text \<open>
  C7 as stated fails: in the error state the angle-mode toggle, the sign toggle, memory add
  and memory subtract all leave \<open>hasError\<close> true.
\<close>

theorem error_not_cleared_counterexample:
  "hasError errorState
   \<and> hasError (toggleAngleMode errorState)
   \<and> hasError (toggleSign errorState)
   \<and> hasError (memoryAdd errorState)
   \<and> hasError (memorySubtract errorState)"
  by (simp add: errorState_def toggleAngleMode_def toggleSign_def memoryAdd_def
        memorySubtract_def)

section \<open>Operator key in the error state\<close>

text \<open>
  C10. An operator key pressed in an error state clears \<open>hasError\<close> and appends its token
  to the empty expression, and the display still reads \<open>Error\<close>. Such a state is reached
  from \<open>initialState\<close> by the keys \<open>+\<close>, \<open>=\<close>, \<open>+\<close> when the evaluator throws at \<open>+\<close>.
\<close>

theorem error_display_survives_operator:
  "(hasError s \<and> display s = js ''Error'' \<and> expression s = [] \<longrightarrow>
      display (insertOperator (js ''+'') s) = js ''Error''
      \<and> \<not> hasError (insertOperator (js ''+'') s)
      \<and> expression (insertOperator (js ''+'') s) = js ''+'')
   \<and> (ev (js ''+'') = None \<longrightarrow>
      (let t = run ev initialState [InsertOperator (js ''+''), Evaluate, InsertOperator (js ''+'')]
       in display t = js ''Error'' \<and> \<not> hasError t \<and> expression t = js ''+''))"
proof -
  have "run ev initialState [InsertOperator (js ''+''), Evaluate, InsertOperator (js ''+'')]
        = insertOperator (js ''+'') (run ev initialState [InsertOperator (js ''+''), Evaluate])"
    by (simp add: run_def)
  then show ?thesis
    by (simp add: insertOperator_plus errorState_reached errorState_def)
qed

theorem error_display_survives_operator_witness:
  "literalEvaluator (js ''+'') = None
   \<and> display (run literalEvaluator initialState
        [InsertOperator (js ''+''), Evaluate, InsertOperator (js ''+'')]) = js ''Error''
   \<and> \<not> hasError (run literalEvaluator initialState
        [InsertOperator (js ''+''), Evaluate, InsertOperator (js ''+'')])
   \<and> hasError errorState \<and> display errorState = js ''Error'' \<and> expression errorState = []
   \<and> \<not> hasError (insertOperator (js ''+'') errorState)
   \<and> display (insertOperator (js ''+'') errorState) = js ''Error''"
  using error_display_survives_operator [of errorState literalEvaluator] literalEvaluator_plus
  by (simp add: Let_def) (simp add: errorState_def)

section \<open>A failed evaluation\<close>

text \<open>
  C5. When the expression is not empty and the evaluator throws at the rewritten
  expression, \<open>calculate\<close> returns the previous state with the display \<open>Error\<close>, the
  expression emptied and \<open>hasError\<close> set; every other field, \<open>previousAnswer\<close> among them,
  is the one of the previous state. \<open>calculate\<close> is a total function: nothing is thrown.
\<close>

theorem calculate_failure:
  "expression s \<noteq> [] \<Longrightarrow> ev (rewritten (angleMode s) (expression s)) = None \<Longrightarrow>
     calculate ev s = s\<lparr>display := js ''Error'', expression := [], hasError := True\<rparr>
     \<and> display (calculate ev s) = js ''Error''
     \<and> expression (calculate ev s) = []
     \<and> hasError (calculate ev s)
     \<and> previousAnswer (calculate ev s) = previousAnswer s"
  by (simp add: calculate_def failed_def)

theorem calculate_failure_witness:
  "expression (insertOperator (js ''+'') initialState) \<noteq> []
   \<and> literalEvaluator (rewritten (angleMode (insertOperator (js ''+'') initialState))
        (expression (insertOperator (js ''+'') initialState))) = None
   \<and> display (calculate literalEvaluator (insertOperator (js ''+'') initialState)) = js ''Error''
   \<and> hasError (calculate literalEvaluator (insertOperator (js ''+'') initialState))
   \<and> previousAnswer (calculate literalEvaluator (insertOperator (js ''+'') initialState)) = Fin 0"
proof -
  let ?s = "insertOperator (js ''+'') initialState"
  have e: "expression ?s = js ''+''"
    by (simp add: insertOperator_plus initialState_def)
  have h1: "expression ?s \<noteq> []" by (simp add: e) (simp add: js_def)
  have h2: "literalEvaluator (rewritten (angleMode ?s) (expression ?s)) = None"
    by (simp add: e rewritten_plus literalEvaluator_plus)
  have "previousAnswer ?s = Fin 0" by (simp add: insertOperator_plus initialState_def)
  then show ?thesis using calculate_failure [of ?s literalEvaluator] h1 h2 by simp
qed

section \<open>Digit entry\<close>

lemma dropWhile_snoc_zero:
  "dropWhile (\<lambda>c. c = (48::nat)) (ds @ [d]) =
     (if dropWhile (\<lambda>c. c = 48) ds = [] then (if d = 48 then [] else [d])
      else dropWhile (\<lambda>c. c = 48) ds @ [d])"
  by (induction ds) auto

lemma dropWhile_ne_zero: "dropWhile (\<lambda>c. c = (48::nat)) ds \<noteq> [48]"
proof
  assume a: "dropWhile (\<lambda>c. c = (48::nat)) ds = [48]"
  then have "dropWhile (\<lambda>c. c = (48::nat)) ds \<noteq> []" by simp
  then have "hd (dropWhile (\<lambda>c. c = (48::nat)) ds) \<noteq> 48" by (rule hd_dropWhile)
  then show False by (simp add: a)
qed

lemma insertDigits_state:
  "insertDigits ds initialState = initialState\<lparr>display := stripZeros ds, expression := ds\<rparr>"
proof (induction ds rule: rev_induct)
  case Nil
  show ?case by (simp add: insertDigits_def stripZeros_def initialState_def)
next
  case (snoc d ds)
  have "insertDigits (ds @ [d]) initialState = insertNumber [d] (insertDigits ds initialState)"
    by (simp add: insertDigits_def)
  also have "\<dots> = insertNumber [d] (initialState\<lparr>display := stripZeros ds, expression := ds\<rparr>)"
    by (simp add: snoc.IH)
  also have "\<dots> = initialState\<lparr>display := stripZeros (ds @ [d]), expression := ds @ [d]\<rparr>"
    by (auto simp: insertNumber_def initialState_def stripZeros_def dropWhile_snoc_zero js_def
          dropWhile_ne_zero)
  finally show ?case .
qed

lemma run_digits: "run ev s (map (\<lambda>d. InsertDigit [d]) ds) = insertDigits ds s"
  by (simp add: run_def insertDigits_def foldl_map)

lemma stripZeros_digits: "list_all is_digit ds \<Longrightarrow> list_all is_digit (stripZeros ds)"
  by (auto simp: stripZeros_def js_def is_digit_def list_all_iff dest: set_dropWhileD)

lemma stripZeros_id:
  "(stripZeros ds = ds) = (case ds of [] \<Rightarrow> False | c # cs \<Rightarrow> c \<noteq> 48 \<or> cs = [])"
proof (cases ds)
  case Nil
  then show ?thesis by (simp add: stripZeros_def js_def)
next
  case (Cons c cs)
  show ?thesis
  proof (cases "c = 48")
    case False
    then show ?thesis using Cons by (simp add: stripZeros_def)
  next
    case True
    have "length (dropWhile (\<lambda>c. c = 48) cs) \<le> length cs" by (rule length_dropWhile_le)
    then have "dropWhile (\<lambda>c. c = 48) cs \<noteq> 48 # cs" by auto
    then show ?thesis using Cons True by (auto simp: stripZeros_def js_def)
  qed
qed

text \<open>
  C8, as the code has it. After any sequence of digit keys from \<open>initialState\<close> the
  expression is the sequence of the digits typed and the display is that sequence without
  its leading zeros (\<open>0\<close> when nothing is left). Both consist of digits only, so neither
  contains a decimal point, and they are equal exactly when the sequence is not empty and
  either does not start with \<open>0\<close> or is the single digit \<open>0\<close>.
\<close>

theorem digits_display_and_expression:
  assumes "list_all is_digit ds"
  shows "let s = run ev initialState (map (\<lambda>d. InsertDigit [d]) ds) in
         expression s = ds \<and> display s = stripZeros ds \<and>
         list_all is_digit (expression s) \<and> list_all is_digit (display s) \<and>
         \<not> includes_js (expression s) 46 \<and> \<not> includes_js (display s) 46 \<and>
         (display s = expression s
            \<longleftrightarrow> (case ds of [] \<Rightarrow> False | c # cs \<Rightarrow> c \<noteq> 48 \<or> cs = []))"
proof -
  have d: "list_all is_digit (stripZeros ds)" using assms by (rule stripZeros_digits)
  have n: "\<And>xs. list_all is_digit xs \<Longrightarrow> \<not> includes_js xs 46"
    by (auto simp: includes_js_def list_all_iff is_digit_def)
  show ?thesis
    using assms d n[OF assms] n[OF d]
    by (simp add: run_digits insertDigits_state Let_def stripZeros_id)
qed

theorem digits_display_and_expression_witness:
  "list_all is_digit (js ''105'')
   \<and> expression (run literalEvaluator initialState
        [InsertDigit (js ''1''), InsertDigit (js ''0''), InsertDigit (js ''5'')]) = js ''105''
   \<and> display (run literalEvaluator initialState
        [InsertDigit (js ''1''), InsertDigit (js ''0''), InsertDigit (js ''5'')]) = js ''105''"
proof -
  have h: "list_all is_digit (js ''105'')" by (simp add: js_def is_digit_def)
  have m: "map (\<lambda>d. InsertDigit [d]) (js ''105'')
           = [InsertDigit (js ''1''), InsertDigit (js ''0''), InsertDigit (js ''5'')]"
    by (simp add: js_def)
  have "stripZeros (js ''105'') = js ''105''" by (simp add: stripZeros_def js_def)
  then show ?thesis
    using digits_display_and_expression [OF h, of literalEvaluator] h
    by (simp add: Let_def m)
qed

text \<open>
  C8 as stated fails: after the digit keys \<open>0\<close>, \<open>0\<close> the display is \<open>0\<close> and the expression
  is \<open>00\<close>.
\<close>

theorem leading_zeros_counterexample:
  "display (insertNumber (js ''0'') (insertNumber (js ''0'') initialState))
     \<noteq> expression (insertNumber (js ''0'') (insertNumber (js ''0'') initialState))
   \<and> display (insertNumber (js ''0'') (insertNumber (js ''0'') initialState)) = js ''0''
   \<and> expression (insertNumber (js ''0'') (insertNumber (js ''0'') initialState)) = js ''00''"
  by (simp add: insertNumber_def initialState_def js_def)

section \<open>Function keys\<close>

text \<open>
  C2. The key \<open>sin\<close> appends the fragment \<open>sin(\<close> of the table, which ends in an open
  parenthesis, and \<open>waitingForOperand\<close> is false afterwards: the source tests the key label,
  not the fragment, for a parenthesis. No label of the table contains one, so the flag is
  false after every key of the table (and unchanged after an unknown key).
\<close>

theorem sin_key_not_waiting:
  "fragment (js ''sin'') = Some (js ''sin('')
   \<and> expression (handleFunction (js ''sin'') initialState) = js ''sin(''
   \<and> \<not> waitingForOperand (handleFunction (js ''sin'') initialState)
   \<and> waitingForOperand (handleFunction func s) = (fragment func = None \<and> waitingForOperand s)"
proof -
  have "waitingForOperand (handleFunction func s) = (fragment func = None \<and> waitingForOperand s)"
  proof (cases "fragment func")
    case None
    then show ?thesis by (simp add: handleFunction_def)
  next
    case (Some frag)
    then have "40 \<notin> set func"
      by (auto simp: fragment_def js_def SUP_MINUS_ONE_def SUP_TWO_def SUP_THREE_def SUP_X_def
            ROOT_SIGN_def split: if_splits)
    then show ?thesis using Some by (simp add: handleFunction_def includes_js_def)
  qed
  moreover have "fragment (js ''sin'') = Some (js ''sin('')"
    by (simp add: fragment_def) (simp add: js_def)
  moreover have "expression (handleFunction (js ''sin'') initialState) = js ''sin(''"
    by (simp add: handleFunction_def fragment_def initialState_def) (simp add: js_def)
  moreover have "\<not> waitingForOperand (handleFunction (js ''sin'') initialState)"
    by (simp add: handleFunction_def fragment_def initialState_def includes_js_def)
       (simp add: js_def)
  ultimately show ?thesis by blast
qed

section \<open>Angle-mode rewriting\<close>

text \<open>
  C1. In \<open>DEG\<close> mode the expression \<open>asin(1)\<close> reaches the evaluator with its argument
  multiplied by \<open>pi/180\<close> as well: the pattern \<open>sin(\<close> of the first replacement also matches
  inside \<open>asin(\<close>.
\<close>

theorem asin_rewritten_twice:
  "degRewrite (js ''asin(1)'') = js ''(180/pi)*asin((pi/180)*1)''
   \<and> degRewrite (js ''acos(1)'') = js ''(180/pi)*acos((pi/180)*1)''
   \<and> degRewrite (js ''atan(1)'') = js ''(180/pi)*atan((pi/180)*1)''
   \<and> rewritten DEG (js ''asin(1)'') = js ''(180/pi)*asin((pi/180)*1)''
   \<and> degRewrite (js ''sin(90)'') = js ''sin((pi/180)*90)''"
proof -
  have "replaceConstants (js ''asin(1)'') = js ''asin(1)''"
    by (simp add: replaceConstants_def js_def PI_SIGN_def)
  moreover have "degRewrite (js ''asin(1)'') = js ''(180/pi)*asin((pi/180)*1)''"
    by (simp add: degRewrite_def Let_def js_def)
  moreover have "degRewrite (js ''acos(1)'') = js ''(180/pi)*acos((pi/180)*1)''"
    by (simp add: degRewrite_def Let_def js_def)
  moreover have "degRewrite (js ''atan(1)'') = js ''(180/pi)*atan((pi/180)*1)''"
    by (simp add: degRewrite_def Let_def js_def)
  moreover have "degRewrite (js ''sin(90)'') = js ''sin((pi/180)*90)''"
    by (simp add: degRewrite_def Let_def js_def)
  ultimately show ?thesis by (simp add: rewritten_def Let_def)
qed

section \<open>Decimal rendering of numbers\<close>




lemma pow_nat: "pow b (int k) = of_int (b ^ k)"
  by (simp add: pow_def)








lemma digits_small: "n < 10 \<Longrightarrow> digits n = [48 + nat n]"
  by (subst digits.simps) simp

lemma digits_large: "\<not> n < 10 \<Longrightarrow> digits n = digits (n div 10) @ [48 + nat (n mod 10)]"
  by (subst digits.simps) simp

lemma digits_are_digits: "list_all is_digit (digits n)"
proof (induction n rule: digits.induct)
  case (1 n)
  show ?case
  proof (cases "n < 10")
    case True
    then show ?thesis by (simp add: digits_small is_digit_def)
  next
    case False
    have "0 \<le> n mod 10" "n mod 10 < 10" by simp_all
    then have "is_digit (48 + nat (n mod 10))" unfolding is_digit_def by arith
    then show ?thesis using 1 False by (simp add: digits_large)
  qed
qed

lemma digits_nonempty: "digits n \<noteq> []"
  by (cases "n < 10") (simp_all add: digits_small digits_large)


















section \<open>Reading a rendered number back\<close>

lemma digits_val_snoc: "digits_val (xs @ [c]) = 10 * digits_val xs + (int c - 48)"
  by (simp add: digits_val_def)

lemma digits_val_append: "digits_val (xs @ ys) = digits_val xs * 10 ^ length ys + digits_val ys"
proof (induction ys rule: rev_induct)
  case Nil
  show ?case by (simp add: digits_val_def)
next
  case (snoc y ys)
  have "digits_val (xs @ ys @ [y]) = 10 * digits_val (xs @ ys) + (int y - 48)"
    using digits_val_snoc[of "xs @ ys" y] by simp
  then show ?case using snoc by (simp add: digits_val_snoc algebra_simps)
qed

lemma digits_val_zeros: "digits_val (zeros k) = 0"
proof (induction k)
  case 0
  show ?case by (simp add: zeros_def digits_val_def)
next
  case (Suc k)
  have "zeros (Suc k) = zeros k @ [48]" by (simp add: zeros_def replicate_append_same)
  then show ?case using Suc by (simp only: digits_val_snoc)
qed

lemma digits_val_digits: "0 \<le> n \<Longrightarrow> digits_val (digits n) = n"
proof (induction n rule: digits.induct)
  case (1 n)
  show ?case
  proof (cases "n < 10")
    case True
    then show ?thesis using 1(2) by (simp add: digits_small digits_val_def)
  next
    case False
    then have "digits_val (digits (n div 10)) = n div 10" using 1 by simp
    then show ?thesis using False 1(2) by (simp add: digits_large digits_val_snoc)
  qed
qed

lemma takeWhile_digits: "list_all is_digit ds \<Longrightarrow> (rest = [] \<or> \<not> is_digit (hd rest)) \<Longrightarrow>
    takeWhile is_digit (ds @ rest) = ds \<and> dropWhile is_digit (ds @ rest) = rest"
  by (induction ds) (cases rest; auto)+

lemma takeWhile_digits_all: "takeWhile is_digit (digits n) = digits n"
  using takeWhile_digits[of "digits n" "[]"] digits_are_digits by simp

lemma exponent_of_part: "exponent_of (exponent_part ex) = ex"
  by (cases "0 \<le> ex")
     (simp_all add: exponent_of_def exponent_part_def js_def Let_def takeWhile_digits_all
        digits_val_digits digits_nonempty)

lemma exponent_of_Nil: "exponent_of [] = 0"
  by (simp add: exponent_of_def)

lemma exponent_part_hd: "exponent_part ex \<noteq> [] \<and> \<not> is_digit (hd (exponent_part ex))"
  by (simp add: exponent_part_def js_def is_digit_def)

lemma parseFloat_digit_first:
  assumes d: "is_digit d" and sg: "(sg = [] \<and> \<not> neg) \<or> (sg = [45] \<and> neg)"
  shows "parseFloat (sg @ d # r) =
     (let t1 = d # r; ip = takeWhile is_digit t1; t2 = dropWhile is_digit t1;
          dot = (case t2 of [] \<Rightarrow> False | c # _ \<Rightarrow> c = 46);
          fp = (if dot then takeWhile is_digit (tl t2) else []);
          t3 = (if dot then dropWhile is_digit (tl t2) else t2)
      in fl ((if neg then - 1 else 1) * of_int (digits_val (ip @ fp))
             * pow 10 (exponent_of t3 - int (length fp))))"
proof -
  have nsp: "\<not> is_space d" "\<not> is_space 45" "d \<noteq> 45" "d \<noteq> 43" "d \<noteq> 73"
    using d by (auto simp: is_digit_def is_space_def)
  have nI: "\<not> prefix (js ''Infinity'') (d # r)" using nsp by (simp add: js_def)
  show ?thesis
  proof (cases neg)
    case True
    then have s: "sg = [45]" using sg by simp
    show ?thesis unfolding s parseFloat_def using True nsp nI d by (simp add: Let_def)
  next
    case False
    then have s: "sg = []" using sg by simp
    show ?thesis unfolding s parseFloat_def using False nsp nI d by (simp add: Let_def)
  qed
qed

lemma parseFloat_decimal:
  assumes ip: "list_all is_digit ip" and fp: "list_all is_digit fp" and ne: "ip \<noteq> []"
    and t: "(t3 = [] \<and> x = 0) \<or> t3 = exponent_part x"
    and sg: "(sg = [] \<and> \<not> neg) \<or> (sg = [45] \<and> neg)"
  shows "parseFloat (sg @ ip @ 46 # fp @ t3)
           = fl ((if neg then - 1 else 1) * of_int (digits_val (ip @ fp)) * pow 10 (x - int (length fp)))"
    and "parseFloat (sg @ ip @ t3)
           = fl ((if neg then - 1 else 1) * of_int (digits_val ip) * pow 10 x)"
proof -
  obtain d ds where ipc: "ip = d # ds" using ne by (cases ip) auto
  have d: "is_digit d" using ip ipc by simp
  have t3h: "t3 = [] \<or> \<not> is_digit (hd t3)" using t exponent_part_hd by auto
  have ex: "exponent_of t3 = x" using t exponent_of_part exponent_of_Nil by auto
  have tw1: "takeWhile is_digit (ip @ 46 # fp @ t3) = ip"
            "dropWhile is_digit (ip @ 46 # fp @ t3) = 46 # fp @ t3"
    using takeWhile_digits[OF ip, of "46 # fp @ t3"] by (simp_all add: is_digit_def)
  have tw2: "takeWhile is_digit (fp @ t3) = fp" "dropWhile is_digit (fp @ t3) = t3"
    using takeWhile_digits[OF fp, of t3] t3h by simp_all
  have tw3: "takeWhile is_digit (ip @ t3) = ip" "dropWhile is_digit (ip @ t3) = t3"
    using takeWhile_digits[OF ip, of t3] t3h by simp_all
  have nodot: "(case t3 of [] \<Rightarrow> False | c # _ \<Rightarrow> c = 46) = False"
    using t by (auto simp: exponent_part_def js_def)
  have "parseFloat (sg @ d # (ds @ 46 # fp @ t3))
           = fl ((if neg then - 1 else 1) * of_int (digits_val (ip @ fp)) * pow 10 (x - int (length fp)))"
    unfolding parseFloat_digit_first[OF d sg] Let_def
    using tw1 tw2 by (simp add: ipc ex del: takeWhile.simps dropWhile.simps)
  then show "parseFloat (sg @ ip @ 46 # fp @ t3)
           = fl ((if neg then - 1 else 1) * of_int (digits_val (ip @ fp)) * pow 10 (x - int (length fp)))"
    by (simp add: ipc)
  have "parseFloat (sg @ d # (ds @ t3))
           = fl ((if neg then - 1 else 1) * of_int (digits_val ip) * pow 10 x)"
    unfolding parseFloat_digit_first[OF d sg] Let_def
    using tw3 nodot by (simp add: ipc ex del: takeWhile.simps dropWhile.simps)
  then show "parseFloat (sg @ ip @ t3)
           = fl ((if neg then - 1 else 1) * of_int (digits_val ip) * pow 10 x)"
    by (simp add: ipc)
qed



lemma zeros_digits: "list_all is_digit (zeros k)"
  by (simp add: zeros_def list_all_iff is_digit_def)

lemma digits_val_leading_zero: "digits_val (48 # xs) = digits_val xs"
proof -
  have "digits_val [48] = 0" by (simp add: digits_val_def)
  then show ?thesis using digits_val_append[of "[48]" xs] by simp
qed




lemma toExponential_6_zero: "parseFloat (toExponential 6 (Fin 0)) = Fin 0"
proof -
  have "toExponential 6 (Fin 0) = [] @ [48] @ 46 # zeros 6 @ exponent_part 0"
    by (simp add: toExponential_def zeros_def js_def numeral_eq_Suc)
  moreover have "digits_val ([48] @ zeros 6) = 0"
    by (simp add: digits_val_leading_zero digits_val_zeros)
  moreover have "fl 0 = Fin 0" by (simp add: fl_def)
  ultimately show ?thesis
    using parseFloat_decimal(1)[of "[48]" "zeros 6" "exponent_part 0" 0 "[]" False] zeros_digits[of 6]
    by (simp add: is_digit_def)
qed

section \<open>The formatting rule\<close>

lemma numToString_e: "numToString e_js = js ''2.718281828459045''"
  by code_simp

lemma numToString_pi: "numToString pi_js = js ''3.141592653589793''"
  by code_simp










lemma parseFloat_Error: "parseFloat (js ''Error'') = NaN"
  by (simp add: parseFloat_def Let_def is_space_def js_def is_digit_def)

lemma dec_round_pi: "dec_round 10 (884279719003555 / 281474976710656) = (3141592654, 0)"
  by code_simp



































section \<open>Constant substitution\<close>

text \<open>
  C3. The substitution of \<open>e\<close> replaces the first letter of the fragment \<open>exp(\<close> that the
  key for the exponential function appends: the \<open>e\<close> is followed by \<open>x\<close>, which is not a
  digit. The evaluator receives \<open>2.718281828459045xp(1)\<close> for \<open>exp(1)\<close>, in both angle modes.
\<close>

theorem exp_fragment_destroyed:
  "replaceConstants (js ''exp(1)'') = js ''2.718281828459045xp(1)''
   \<and> rewritten DEG (js ''exp(1)'') = js ''2.718281828459045xp(1)''
   \<and> rewritten RAD (js ''exp(1)'') = js ''2.718281828459045xp(1)''"
proof -
  have "replaceConstants (js ''exp(1)'') = numToString e_js @ js ''xp(1)''"
    by (simp add: replaceConstants_def js_def PI_SIGN_def is_digit_def)
  then have r: "replaceConstants (js ''exp(1)'') = js ''2.718281828459045xp(1)''"
    by (simp add: numToString_e js_def)
  have "degRewrite (js ''2.718281828459045xp(1)'') = js ''2.718281828459045xp(1)''"
    by (simp add: degRewrite_def js_def Let_def)
  then show ?thesis by (simp add: rewritten_def r Let_def)
qed

section \<open>Memory and an unparseable display\<close>

text \<open>
  C4. In the error state the display reads \<open>Error\<close>, which \<open>parseFloat\<close> turns into NaN:
  the fallback of the source only replaces an empty display by \<open>0\<close>. Memory add and
  memory subtract then store NaN in a memory that was 0. The expression is not touched.
\<close>

theorem memory_becomes_NaN:
  "display errorState = js ''Error''
   \<and> parseFloat (display_or_0 errorState) = NaN
   \<and> memory errorState = Fin 0
   \<and> memory (memoryAdd errorState) = NaN
   \<and> memory (memorySubtract errorState) = NaN
   \<and> expression (memoryAdd s) = expression s
   \<and> expression (memorySubtract s) = expression s"
proof -
  have "display_or_0 errorState = js ''Error''"
    by (simp add: display_or_0_def errorState_def) (simp add: js_def)
  then show ?thesis
    by (simp add: memoryAdd_def memorySubtract_def num_sub_def parseFloat_Error)
       (simp add: errorState_def)
qed

end
